theory Spec2Isabelle
  imports Main "HOL-Library.Sublist"
begin

section \<open>Python values used by \<^verbatim>\<open>bin/scram-j-cli.py\<close>\<close>

text \<open>
  A Python \<^verbatim>\<open>str\<close> is a sequence of Unicode code points, so \<^verbatim>\<open>len\<close> and slicing count
  code points. It is modelled as a list of code points; \<open>str\<close> embeds an ASCII literal.
\<close>

type_synonym pystr = "nat list"

definition str :: "string \<Rightarrow> pystr" where
  "str s = map of_char s"

text \<open>
  \<^verbatim>\<open>str.isspace\<close> per character, and \<^verbatim>\<open>str.strip()\<close> without arguments, which removes
  leading and trailing whitespace characters.
\<close>

definition isspace :: "nat \<Rightarrow> bool" where
  "isspace c \<longleftrightarrow>
     (9 \<le> c \<and> c \<le> 13) \<or> (28 \<le> c \<and> c \<le> 32) \<or> c = 133 \<or> c = 160 \<or> c = 5760 \<or>
     (8192 \<le> c \<and> c \<le> 8202) \<or> c = 8232 \<or> c = 8233 \<or> c = 8239 \<or> c = 8287 \<or> c = 12288"

definition strip :: "pystr \<Rightarrow> pystr" where
  "strip s = rev (dropWhile isspace (rev (dropWhile isspace s)))"

text \<open>
  The values \<^verbatim>\<open>json.loads\<close> returns and \<^verbatim>\<open>json.dumps\<close> accepts. A \<^verbatim>\<open>dict\<close> is the list
  of its items in insertion order. A \<^verbatim>\<open>float\<close> is only passed through, tested for truth
  and printed by this program, so it is represented by the text \<^verbatim>\<open>json.dumps\<close> prints
  for it (\<^verbatim>\<open>float.__repr__\<close>, or \<^verbatim>\<open>NaN\<close>, \<^verbatim>\<open>Infinity\<close>, \<^verbatim>\<open>-Infinity\<close>).
\<close>

datatype json =
    JNull
  | JBool bool
  | JInt int
  | JFloat pystr
  | JString pystr
  | JArray "json list"
  | JObject "(pystr \<times> json) list"

text \<open>Python truth value, as tested by \<^verbatim>\<open>or\<close>.\<close>

fun truthy :: "json \<Rightarrow> bool" where
  "truthy JNull = False"
| "truthy (JBool b) = b"
| "truthy (JInt i) = (i \<noteq> 0)"
| "truthy (JFloat r) = (r \<noteq> str ''0.0'' \<and> r \<noteq> str ''-0.0'')"
| "truthy (JString s) = (s \<noteq> [])"
| "truthy (JArray xs) = (xs \<noteq> [])"
| "truthy (JObject kvs) = (kvs \<noteq> [])"

datatype py_exception = IndexError | KeyError | TypeError | AttributeError

text \<open>\<^verbatim>\<open>d.get(k, dflt)\<close> on a dict, and on an arbitrary value (only a dict has \<^verbatim>\<open>get\<close>).\<close>

definition dict_get :: "(pystr \<times> json) list \<Rightarrow> pystr \<Rightarrow> json \<Rightarrow> json" where
  "dict_get d k dflt = (case map_of d k of Some v \<Rightarrow> v | None \<Rightarrow> dflt)"

fun py_get :: "json \<Rightarrow> pystr \<Rightarrow> json \<Rightarrow> py_exception + json" where
  "py_get (JObject d) k dflt = Inr (dict_get d k dflt)"
| "py_get _ k dflt = Inl AttributeError"

text \<open>\<^verbatim>\<open>v[0]\<close>: the first element of a list, the first character of a string.\<close>

fun item0 :: "json \<Rightarrow> py_exception + json" where
  "item0 (JArray xs) = (case xs of [] \<Rightarrow> Inl IndexError | x # _ \<Rightarrow> Inr x)"
| "item0 (JString s) = (case s of [] \<Rightarrow> Inl IndexError | c # _ \<Rightarrow> Inr (JString [c]))"
| "item0 (JObject d) = Inl KeyError"
| "item0 _ = Inl TypeError"

section \<open>\<^verbatim>\<open>json.dumps\<close>\<close>

text \<open>
  The string encoder of Python's \<^verbatim>\<open>json\<close> module. \<^verbatim>\<open>ESCAPE_DCT\<close> holds the short escapes
  and \<^verbatim>\<open>\u00XX\<close> for every other character below U+0020. With \<^verbatim>\<open>ensure_ascii=False\<close>
  only the characters of \<^verbatim>\<open>ESCAPE_DCT\<close> are replaced; with \<^verbatim>\<open>ensure_ascii=True\<close> (the
  default) every character outside \<^verbatim>\<open>' '..'~'\<close> is replaced too, by \<^verbatim>\<open>\uXXXX\<close> or by a
  surrogate pair above U+FFFF.
\<close>

definition hexdigit :: "nat \<Rightarrow> nat" where
  "hexdigit d = (if d < 10 then 48 + d else 87 + d)"

definition hex4 :: "nat \<Rightarrow> pystr" where
  "hex4 n = [hexdigit (n div 4096 mod 16), hexdigit (n div 256 mod 16),
             hexdigit (n div 16 mod 16), hexdigit (n mod 16)]"

definition u_escape :: "nat \<Rightarrow> pystr" where
  "u_escape n = [92, 117] @ hex4 n"

definition ESCAPE_DCT :: "nat \<Rightarrow> pystr option" where
  "ESCAPE_DCT c =
     (if c = 92 then Some [92, 92]
      else if c = 34 then Some [92, 34]
      else if c = 8 then Some [92, 98]
      else if c = 12 then Some [92, 102]
      else if c = 10 then Some [92, 110]
      else if c = 13 then Some [92, 114]
      else if c = 9 then Some [92, 116]
      else if c < 32 then Some (u_escape c)
      else None)"

definition escape_char :: "bool \<Rightarrow> nat \<Rightarrow> pystr" where
  "escape_char ensure_ascii c =
     (case ESCAPE_DCT c of
        Some e \<Rightarrow> e
      | None \<Rightarrow>
          if \<not> ensure_ascii \<or> (32 \<le> c \<and> c \<le> 126) then [c]
          else if c < 65536 then u_escape c
          else u_escape (55296 + (c - 65536) div 1024 mod 1024) @
               u_escape (56320 + (c - 65536) mod 1024))"

definition encode_basestring :: "bool \<Rightarrow> pystr \<Rightarrow> pystr" where
  "encode_basestring ensure_ascii s = [34] @ concat (map (escape_char ensure_ascii) s) @ [34]"

text \<open>Decimal text of an \<^verbatim>\<open>int\<close>.\<close>

fun digits :: "nat \<Rightarrow> pystr" where
  "digits n = (if n < 10 then [48 + n] else digits (n div 10) @ [48 + n mod 10])"

declare digits.simps [simp del]

definition int_repr :: "int \<Rightarrow> pystr" where
  "int_repr i = (if i < 0 then 45 # digits (nat (- i)) else digits (nat i))"

text \<open>\<^verbatim>\<open>sep.join(xs)\<close>.\<close>

fun join :: "pystr \<Rightarrow> pystr list \<Rightarrow> pystr" where
  "join sep [] = []"
| "join sep [x] = x"
| "join sep (x # y # ys) = x @ sep @ join sep (y # ys)"

text \<open>
  \<^verbatim>\<open>json.dumps(obj, ensure_ascii=...)\<close> with the default separators \<^verbatim>\<open>', '\<close> and \<^verbatim>\<open>': '\<close>.
\<close>

fun dumps :: "bool \<Rightarrow> json \<Rightarrow> pystr"
  and dumps_items :: "bool \<Rightarrow> json list \<Rightarrow> pystr list"
  and dumps_pairs :: "bool \<Rightarrow> (pystr \<times> json) list \<Rightarrow> pystr list"
where
  "dumps a JNull = str ''null''"
| "dumps a (JBool b) = (if b then str ''true'' else str ''false'')"
| "dumps a (JInt i) = int_repr i"
| "dumps a (JFloat r) = r"
| "dumps a (JString s) = encode_basestring a s"
| "dumps a (JArray xs) = str ''['' @ join (str '', '') (dumps_items a xs) @ str '']''"
| "dumps a (JObject kvs) = str ''{'' @ join (str '', '') (dumps_pairs a kvs) @ str ''}''"
| "dumps_items a [] = []"
| "dumps_items a (x # xs) = dumps a x # dumps_items a xs"
| "dumps_pairs a [] = []"
| "dumps_pairs a ((k, v) # kvs) =
     (encode_basestring a k @ str '': '' @ dumps a v) # dumps_pairs a kvs"

section \<open>The program\<close>

text \<open>The result of \<^verbatim>\<open>parser.parse_args()\<close> (lines 27 to 32).\<close>

record args =
  model :: pystr
  session_id :: "pystr option"
  append_system_prompt :: "pystr option"
  prompt :: "pystr option"

text \<open>Lines 15 to 23.\<close>

definition MAX_SYSTEM_PROMPT_CHARS :: nat where
  "MAX_SYSTEM_PROMPT_CHARS = 800"

definition MAX_SYSTEM_PROMPT_DUAL :: nat where
  "MAX_SYSTEM_PROMPT_DUAL = 4000"

definition MODEL_MAP :: "(pystr \<times> pystr) list" where
  "MODEL_MAP =
     [(str ''default'', str ''dual-9b''),
      (str ''dual'', str ''dual-9b''),
      (str ''scram-j'', str ''scram-j''),
      (str ''direct'', str ''responder-direct''),
      (str ''nemotron'', str ''nemotron-direct'')]"

text \<open>Lines 35 to 37: the prompt from the argument, or from standard input.\<close>

definition read_prompt :: "args \<Rightarrow> pystr \<Rightarrow> pystr" where
  "read_prompt a stdin =
     (case prompt a of
        None \<Rightarrow> strip stdin
      | Some p \<Rightarrow> if p = [] then strip stdin else p)"

text \<open>Line 43: \<^verbatim>\<open>MODEL_MAP.get(args.model, args.model)\<close>.\<close>

definition resolve_model :: "pystr \<Rightarrow> pystr" where
  "resolve_model alias = (case map_of MODEL_MAP alias of Some m \<Rightarrow> m | None \<Rightarrow> alias)"

text \<open>Line 50.\<close>

definition max_sp :: "pystr \<Rightarrow> nat" where
  "max_sp m =
     (if m = str ''dual-9b'' \<or> m = str ''nemotron-direct''
      then MAX_SYSTEM_PROMPT_DUAL else MAX_SYSTEM_PROMPT_CHARS)"

text \<open>Lines 46 to 54: the message list.\<close>

definition message :: "pystr \<Rightarrow> pystr \<Rightarrow> json" where
  "message role content = JObject [(str ''role'', JString role), (str ''content'', JString content)]"

definition build_messages :: "pystr \<Rightarrow> pystr option \<Rightarrow> pystr \<Rightarrow> json list" where
  "build_messages m system_prompt p =
     (case system_prompt of
        None \<Rightarrow> []
      | Some sp \<Rightarrow>
          if sp = [] then []
          else [message (str ''system'') (if length sp > max_sp m then take (max_sp m) sp else sp)])
     @ [message (str ''user'') p]"

text \<open>
  Lines 57 to 68: the request, with the timeout line 71 passes along. The payload is ASCII
  text (\<^verbatim>\<open>ensure_ascii\<close> is on), so its UTF-8 bytes are its characters. Building the
  \<^verbatim>\<open>Request\<close> object is taken to succeed: \<^verbatim>\<open>urllib\<close> rejects there a URL without a
  scheme, which depends on the endpoint configured and not on the invocation.
\<close>

record request =
  full_url :: pystr
  data :: pystr
  headers :: "(pystr \<times> pystr) list"
  http_method :: pystr
  timeout :: nat

definition build_request :: "pystr \<Rightarrow> pystr \<Rightarrow> json list \<Rightarrow> request" where
  "build_request endpoint m messages =
     \<lparr>full_url = endpoint @ str ''/v1/chat/completions'',
      data = dumps True (JObject [(str ''model'', JString m), (str ''messages'', JArray messages)]),
      headers = [(str ''Content-Type'', str ''application/json'')],
      http_method = str ''POST'',
      timeout = 120\<rparr>"

text \<open>
  What the guarded block of lines 70 to 72 does with a request: \<^verbatim>\<open>urlopen\<close>, \<^verbatim>\<open>read\<close>,
  \<^verbatim>\<open>decode\<close> and \<^verbatim>\<open>json.loads\<close> return the parsed body, or one of them raises
  \<^verbatim>\<open>URLError\<close> (or a subclass), or one of them raises another \<^verbatim>\<open>Exception\<close>. The string
  is \<^verbatim>\<open>str(e)\<close>, as the f-strings of lines 75 and 80 format it.
\<close>

datatype outcome =
    Returned json
  | Raised_URLError pystr
  | Raised_Exception pystr

text \<open>
  The surroundings of a run: the endpoint of line 14 (the environment variable
  \<^verbatim>\<open>SCRAM_J_ENDPOINT\<close>, by default \<^verbatim>\<open>http://spark:9000\<close>) and the backend behind it.
\<close>

record env =
  ENDPOINT :: pystr
  urlopen :: "request \<Rightarrow> outcome"

text \<open>
  How the process ends: \<^verbatim>\<open>return\<close> from \<^verbatim>\<open>main\<close> and \<^verbatim>\<open>sys.exit(n)\<close> exit with a status;
  an exception nothing catches ends the process with a traceback on standard error.
\<close>

datatype process_end = Exit nat | Uncaught py_exception


record run =
  stdout :: pystr
  sent :: "request list"
  status :: process_end

text \<open>\<^verbatim>\<open>print(s, flush=True)\<close> writes \<open>s\<close> and a newline.\<close>

definition print :: "pystr \<Rightarrow> pystr" where
  "print s = s @ [10]"

text \<open>Line 92: \<^verbatim>\<open>trace_id or args.session_id or ""\<close>.\<close>

definition thread_id :: "json \<Rightarrow> pystr option \<Rightarrow> json" where
  "thread_id trace_id sid =
     (if truthy trace_id then trace_id
      else case sid of
             None \<Rightarrow> JString []
           | Some s \<Rightarrow> if s \<noteq> [] then JString s else JString [])"

text \<open>Sequencing of steps that may raise: the first exception ends the evaluation.\<close>

definition and_then :: "py_exception + 'a \<Rightarrow> ('a \<Rightarrow> py_exception + 'b) \<Rightarrow> py_exception + 'b" where
  "and_then r f = (case r of Inl x \<Rightarrow> Inl x | Inr v \<Rightarrow> f v)"

text \<open>
  Lines 85 to 102, which no \<^verbatim>\<open>try\<close> guards: the output dict, or the exception raised on
  the way, in the order of evaluation.
\<close>

definition output_event :: "json \<Rightarrow> json \<Rightarrow> json \<Rightarrow> json \<Rightarrow> json \<Rightarrow> json" where
  "output_event tid content input_tokens output_tokens total_tokens =
     JObject
       [(str ''thread_id'', tid),
        (str ''item'', JObject [(str ''text'', content), (str ''type'', JString (str ''message''))]),
        (str ''usage'', JObject
           [(str ''input_tokens'', input_tokens),
            (str ''output_tokens'', output_tokens),
            (str ''total_tokens'', total_tokens)])]"

definition extract_response :: "json \<Rightarrow> pystr option \<Rightarrow> py_exception + json" where
  "extract_response body sid =
     and_then (py_get body (str ''choices'') (JArray [JObject []])) (\<lambda>choices.
     and_then (item0 choices) (\<lambda>choice.
     and_then (py_get choice (str ''message'') (JObject [])) (\<lambda>msg.
     and_then (py_get msg (str ''content'') (JString (str ''(no response)''))) (\<lambda>content.
     and_then (py_get body (str ''usage'') (JObject [])) (\<lambda>usage.
     and_then (py_get body (str ''scram_j'') (JObject [])) (\<lambda>scram_j.
     and_then (py_get scram_j (str ''trace_id'') (JString [])) (\<lambda>trace_id.
     and_then (py_get usage (str ''prompt_tokens'') (JInt 0)) (\<lambda>input_tokens.
     and_then (py_get usage (str ''completion_tokens'') (JInt 0)) (\<lambda>output_tokens.
     and_then (py_get usage (str ''total_tokens'') (JInt 0)) (\<lambda>total_tokens.
       Inr (output_event (thread_id trace_id sid) content
              input_tokens output_tokens total_tokens)))))))))))"

text \<open>Lines 75 and 80: the dict of an error event.\<close>

definition error_event :: "pystr \<Rightarrow> json" where
  "error_event text = JObject [(str ''item'', JObject [(str ''text'', JString text), (str ''type'', JString (str ''message''))])]"

text \<open>Line 39: the fixed line of the empty prompt.\<close>

definition empty_prompt_line :: pystr where
  \<open>empty_prompt_line = str ''{"item":{"text":"(empty prompt)","type":"message"}}''\<close>

text \<open>Lines 43 to 68: the request sent for a prompt.\<close>

definition request_for :: "env \<Rightarrow> args \<Rightarrow> pystr \<Rightarrow> request" where
  "request_for e a p =
     (let m = resolve_model (model a)
      in build_request (ENDPOINT e) m (build_messages m (append_system_prompt a) p))"

text \<open>
  \<^verbatim>\<open>main\<close>, lines 26 to 103: what is written to standard output, the requests sent, and
  how the process ends.
\<close>

definition main :: "env \<Rightarrow> args \<Rightarrow> pystr \<Rightarrow> run" where
  "main e a stdin =
     (let p = read_prompt a stdin in
      if p = [] then \<lparr>stdout = print empty_prompt_line, sent = [], status = Exit 0\<rparr>
      else
        let req = request_for e a p
        in case urlopen e req of
             Raised_URLError d \<Rightarrow>
               \<lparr>stdout = print (dumps True (error_event (str ''SCRAM-J connection error: '' @ d))),
                sent = [req], status = Exit 1\<rparr>
           | Raised_Exception d \<Rightarrow>
               \<lparr>stdout = print (dumps True (error_event (str ''SCRAM-J error: '' @ d))),
                sent = [req], status = Exit 1\<rparr>
           | Returned body \<Rightarrow>
               (case extract_response body (session_id a) of
                  Inl x \<Rightarrow> \<lparr>stdout = [], sent = [req], status = Uncaught x\<rparr>
                | Inr output \<Rightarrow>
                    \<lparr>stdout = print (dumps False output), sent = [req], status = Exit 0\<rparr>))"

section \<open>Observations used to state the properties\<close>

text \<open>
  The value found in a JSON document by following keys and list indices, when every step
  exists.
\<close>

datatype step = Key pystr | Idx nat

fun at_path :: "step list \<Rightarrow> json \<Rightarrow> json option" where
  "at_path [] v = Some v"
| "at_path (Key k # ps) (JObject d) = (case map_of d k of None \<Rightarrow> None | Some v \<Rightarrow> at_path ps v)"
| "at_path (Idx n # ps) (JArray xs) = (if n < length xs then at_path ps (xs ! n) else None)"
| "at_path (p # ps) v = None"

definition or_default :: "json option \<Rightarrow> json \<Rightarrow> json" where
  "or_default r dflt = (case r of None \<Rightarrow> dflt | Some v \<Rightarrow> v)"

text \<open>
  The Chat Response shape of the data model with every field optional: an object whose
  \<^verbatim>\<open>choices\<close>, when present, is a list starting with an object whose \<^verbatim>\<open>message\<close>, when
  present, is an object, and whose \<^verbatim>\<open>usage\<close> and \<^verbatim>\<open>scram_j\<close>, when present, are objects.
\<close>

fun is_dict :: "json \<Rightarrow> bool" where
  "is_dict (JObject d) = True"
| "is_dict _ = False"

definition absent_or_dict :: "pystr \<Rightarrow> (pystr \<times> json) list \<Rightarrow> bool" where
  "absent_or_dict k d = (case map_of d k of None \<Rightarrow> True | Some v \<Rightarrow> is_dict v)"

fun first_is_choice :: "json \<Rightarrow> bool" where
  "first_is_choice (JArray (JObject c # cs)) = absent_or_dict (str ''message'') c"
| "first_is_choice _ = False"

fun chat_response :: "json \<Rightarrow> bool" where
  "chat_response (JObject d) =
     ((case map_of d (str ''choices'') of None \<Rightarrow> True | Some v \<Rightarrow> first_is_choice v) \<and>
      absent_or_dict (str ''usage'') d \<and> absent_or_dict (str ''scram_j'') d)"
| "chat_response _ = False"

text \<open>Backends and invocations used as examples.\<close>

definition refusing :: "request \<Rightarrow> outcome" where
  "refusing req = Raised_URLError (str ''<urlopen error [Errno 111] Connection refused>'')"


definition replying :: "json \<Rightarrow> request \<Rightarrow> outcome" where
  "replying body req = Returned body"



definition refusing_fr :: "request \<Rightarrow> outcome" where
  "refusing_fr req =
     Raised_URLError (str ''<urlopen error [Errno 111] Connexion refus'' @ [233] @ str ''e>'')"

definition invocation :: "pystr option \<Rightarrow> args" where
  "invocation p =
     \<lparr>model = str ''default'', session_id = None, append_system_prompt = None, prompt = p\<rparr>"

definition spark :: "(request \<Rightarrow> outcome) \<Rightarrow> env" where
  "spark backend = \<lparr>ENDPOINT = str ''http://spark:9000'', urlopen = backend\<rparr>"

section \<open>Model resolution and the message list\<close>

text \<open>
  C5. Model resolution is an exact lookup: the five aliases of the table map to their
  targets, and every other alias, whatever its case or surrounding blanks, is returned
  unchanged.
\<close>

theorem resolve_model_table:
  "resolve_model (str ''default'') = str ''dual-9b'' \<and>
   resolve_model (str ''dual'') = str ''dual-9b'' \<and>
   resolve_model (str ''scram-j'') = str ''scram-j'' \<and>
   resolve_model (str ''direct'') = str ''responder-direct'' \<and>
   resolve_model (str ''nemotron'') = str ''nemotron-direct'' \<and>
   (alias \<notin> {str ''default'', str ''dual'', str ''scram-j'', str ''direct'', str ''nemotron''}
      \<longrightarrow> resolve_model alias = alias)"
  by (simp add: resolve_model_def MODEL_MAP_def str_def)

theorem resolve_model_table_witness:
  "resolve_model (str ''Default'') = str ''Default'' \<and>
   resolve_model (str '' default'') = str '' default'' \<and>
   resolve_model (str ''default '') = str ''default '' \<and>
   resolve_model (str ''gpt-4'') = str ''gpt-4''"
  using resolve_model_table [of "str ''Default''"] resolve_model_table [of "str '' default''"]
    resolve_model_table [of "str ''default ''"] resolve_model_table [of "str ''gpt-4''"]
  by (simp add: str_def)

text \<open>
  C4. The budget of the system prompt is 4000 characters for the resolved models
  \<^verbatim>\<open>dual-9b\<close> and \<^verbatim>\<open>nemotron-direct\<close> and 800 otherwise; a longer system prompt is cut to
  exactly its first budget-many characters, so the content of the system message is
  never longer than the budget and always a prefix of the system prompt.
\<close>

theorem system_prompt_budget:
  "max_sp m = (if m = str ''dual-9b'' \<or> m = str ''nemotron-direct'' then 4000 else 800) \<and>
   (length s > max_sp m \<longrightarrow>
      build_messages m (Some s) p =
        [message (str ''system'') (take (max_sp m) s), message (str ''user'') p]) \<and>
   (s \<noteq> [] \<longrightarrow>
      (\<exists>c. build_messages m (Some s) p = [message (str ''system'') c, message (str ''user'') p] \<and>
           length c \<le> max_sp m \<and> prefix c s))"
  by (auto simp: max_sp_def build_messages_def MAX_SYSTEM_PROMPT_DUAL_def
      MAX_SYSTEM_PROMPT_CHARS_def take_is_prefix)

theorem system_prompt_budget_witness:
  "build_messages (str ''scram-j'') (Some (replicate 801 120)) (str ''hi'') =
     [message (str ''system'') (replicate 800 120), message (str ''user'') (str ''hi'')] \<and>
   build_messages (str ''dual-9b'') (Some (replicate 4001 120)) (str ''hi'') =
     [message (str ''system'') (replicate 4000 120), message (str ''user'') (str ''hi'')]"
  using system_prompt_budget [of "str ''scram-j''" "replicate 801 120" "str ''hi''"]
    system_prompt_budget [of "str ''dual-9b''" "replicate 4001 120" "str ''hi''"]
  by (simp add: str_def)

text \<open>
  C3 as stated fails where the system prompt is supplied and empty: line 47 tests its truth
  value, so no system message is built.
\<close>

theorem supplied_empty_system_prompt:
  "build_messages (str ''dual-9b'') (Some []) (str ''hi'') = [message (str ''user'') (str ''hi'')] \<and>
   length (build_messages (str ''dual-9b'') (Some []) (str ''hi'')) \<noteq> 2"
  by (simp add: build_messages_def)

text \<open>
  C3, amended. When no system prompt is supplied, or the supplied one is the empty string,
  the message list is exactly one message of role \<^verbatim>\<open>user\<close>; when a non-empty system prompt
  is supplied it is exactly two messages, the system message first and the user message
  last. The user message always holds the whole user prompt.
\<close>

theorem message_list:
  "(sp = None \<or> sp = Some [] \<longrightarrow>
      build_messages m sp p =
        [JObject [(str ''role'', JString (str ''user'')), (str ''content'', JString p)]]) \<and>
   (\<forall>s. sp = Some s \<and> s \<noteq> [] \<longrightarrow>
      (\<exists>c. build_messages m sp p =
        [JObject [(str ''role'', JString (str ''system'')), (str ''content'', JString c)],
         JObject [(str ''role'', JString (str ''user'')), (str ''content'', JString p)]]))"
  by (auto simp: build_messages_def message_def)

theorem message_list_witness:
  "build_messages (str ''dual-9b'') None (str ''hi'') =
     [JObject [(str ''role'', JString (str ''user'')), (str ''content'', JString (str ''hi''))]] \<and>
   (\<exists>c. build_messages (str ''dual-9b'') (Some (str ''be brief'')) (str ''hi'') =
     [JObject [(str ''role'', JString (str ''system'')), (str ''content'', JString c)],
      JObject [(str ''role'', JString (str ''user'')), (str ''content'', JString (str ''hi''))]])"
  using message_list [of None "str ''dual-9b''" "str ''hi''"]
    message_list [of "Some (str ''be brief'')" "str ''dual-9b''" "str ''hi''"]
  by (simp add: str_def)

section \<open>The prompt\<close>

lemma read_prompt_empty_argument:
  "read_prompt (a\<lparr>prompt := Some []\<rparr>) stdin = strip stdin"
  "read_prompt (a\<lparr>prompt := None\<rparr>) stdin = strip stdin"
  by (simp_all add: read_prompt_def)

lemma request_for_prompt_update: "request_for e (a\<lparr>prompt := q\<rparr>) p = request_for e a p"
  by (simp add: request_for_def)

lemma main_short_circuit:
  "read_prompt a stdin = [] \<Longrightarrow>
     main e a stdin = \<lparr>stdout = print empty_prompt_line, sent = [], status = Exit 0\<rparr>"
  by (simp add: main_def)

lemma sent_main:
  "read_prompt a stdin \<noteq> [] \<Longrightarrow>
     sent (main e a stdin) = [request_for e a (read_prompt a stdin)]"
  by (simp add: main_def Let_def split: outcome.split sum.split)

text \<open>
  C9. A positional prompt that is supplied as the empty string is treated exactly like
  an absent one: the run is the same, the prompt is standard input stripped of
  surrounding whitespace, and the only prompt ever sent is that non-empty stripped text.
\<close>

theorem empty_prompt_argument:
  "main e (a\<lparr>prompt := Some []\<rparr>) stdin = main e (a\<lparr>prompt := None\<rparr>) stdin \<and>
   read_prompt (a\<lparr>prompt := Some []\<rparr>) stdin = strip stdin \<and>
   (strip stdin = [] \<longrightarrow> sent (main e (a\<lparr>prompt := Some []\<rparr>) stdin) = []) \<and>
   (strip stdin \<noteq> [] \<longrightarrow>
      sent (main e (a\<lparr>prompt := Some []\<rparr>) stdin) =
        [build_request (ENDPOINT e) (resolve_model (model a))
           (build_messages (resolve_model (model a)) (append_system_prompt a) (strip stdin))])"
proof -
  have same: "main e (a\<lparr>prompt := Some []\<rparr>) stdin = main e (a\<lparr>prompt := None\<rparr>) stdin"
    by (simp add: main_def Let_def read_prompt_empty_argument request_for_prompt_update
        split: outcome.split)
  have none: "strip stdin = [] \<Longrightarrow> sent (main e (a\<lparr>prompt := Some []\<rparr>) stdin) = []"
    by (simp add: main_short_circuit read_prompt_empty_argument)
  have some: "strip stdin \<noteq> [] \<Longrightarrow>
      sent (main e (a\<lparr>prompt := Some []\<rparr>) stdin) =
        [build_request (ENDPOINT e) (resolve_model (model a))
           (build_messages (resolve_model (model a)) (append_system_prompt a) (strip stdin))]"
    by (simp add: sent_main read_prompt_empty_argument request_for_prompt_update)
       (simp add: request_for_def Let_def)
  from same none some show ?thesis
    by (simp add: read_prompt_empty_argument)
qed

theorem empty_prompt_argument_witness:
  "main (spark refusing) (invocation (Some [])) (str ''  hello world  '' @ [10]) =
     main (spark refusing) (invocation None) (str ''  hello world  '' @ [10]) \<and>
   sent (main (spark refusing) (invocation (Some [])) (str ''  hello world  '' @ [10])) =
     [build_request (str ''http://spark:9000'') (str ''dual-9b'')
        [message (str ''user'') (str ''hello world'')]]"
proof -
  have s: "strip (str ''  hello world  '' @ [10]) = str ''hello world''"
    by (simp add: strip_def str_def isspace_def)
  have ne: "str ''hello world'' \<noteq> []"
    by (simp add: str_def)
  have a: "(invocation None)\<lparr>prompt := Some []\<rparr> = invocation (Some [])"
    "(invocation None)\<lparr>prompt := None\<rparr> = invocation None"
    by (simp_all add: invocation_def)
  have r: "resolve_model (model (invocation None)) = str ''dual-9b''"
    by (simp add: invocation_def resolve_model_def MODEL_MAP_def str_def)
  have m: "build_messages (str ''dual-9b'') (append_system_prompt (invocation None))
      (str ''hello world'') = [message (str ''user'') (str ''hello world'')]"
    by (simp add: build_messages_def invocation_def)
  have e: "ENDPOINT (spark refusing) = str ''http://spark:9000''"
    by (simp add: spark_def)
  show ?thesis
    using empty_prompt_argument [of "spark refusing" "invocation None"
        "str ''  hello world  '' @ [10]"] ne
    unfolding a s r m e by blast
qed



text \<open>
  C6 as stated fails for a positional prompt of blanks: only standard input is stripped
  (line 37), so the prompt \<^verbatim>\<open>" "\<close>, empty after trimming, is sent to the backend.
\<close>

theorem whitespace_argument_is_sent:
  "strip (str '' '') = [] \<and>
   sent (main (spark refusing) (invocation (Some (str '' ''))) []) =
     [build_request (str ''http://spark:9000'') (str ''dual-9b'')
        [message (str ''user'') (str '' '')]] \<and>
   status (main (spark refusing) (invocation (Some (str '' ''))) []) = Exit 1"
  by (simp add: strip_def isspace_def main_def read_prompt_def invocation_def spark_def
      refusing_def request_for_def resolve_model_def MODEL_MAP_def build_messages_def Let_def
      str_def)

text \<open>
  C6, amended. When the positional prompt is absent or empty and standard input is empty
  after trimming surrounding whitespace, the program writes exactly the fixed line of
  line 39, ends with status 0 and sends no request, whatever the backend.
\<close>

theorem empty_prompt_short_circuit:
  \<open>(prompt a = None \<or> prompt a = Some []) \<and> strip stdin = [] \<longrightarrow>
     main e a stdin =
       \<lparr>stdout = str ''{"item":{"text":"(empty prompt)","type":"message"}}'' @ [10],
        sent = [], status = Exit 0\<rparr>\<close>
  by (auto simp: main_def read_prompt_def empty_prompt_line_def print_def)

theorem empty_prompt_short_circuit_witness:
  \<open>main (spark refusing) (invocation None) (str ''  '' @ [9, 10]) =
     \<lparr>stdout = str ''{"item":{"text":"(empty prompt)","type":"message"}}'' @ [10],
      sent = [], status = Exit 0\<rparr> \<and>
   main (spark refusing) (invocation (Some [])) [] =
     \<lparr>stdout = str ''{"item":{"text":"(empty prompt)","type":"message"}}'' @ [10],
      sent = [], status = Exit 0\<rparr>\<close>
proof -
  have s: "strip (str ''  '' @ [9, 10]) = []" "strip [] = []"
    by (simp_all add: strip_def isspace_def str_def)
  have p: "prompt (invocation None) = None" "prompt (invocation (Some [])) = Some []"
    by (simp_all add: invocation_def)
  show ?thesis
    using empty_prompt_short_circuit [of "invocation None" "str ''  '' @ [9, 10]" "spark refusing"]
      empty_prompt_short_circuit [of "invocation (Some [])" "[]" "spark refusing"] s p
    by blast
qed

section \<open>Failures of the guarded network step\<close>



section \<open>The response\<close>

text \<open>
  C1 fails on the code: lines 85 to 102 are outside the \<^verbatim>\<open>try\<close>. For a body whose
  \<^verbatim>\<open>choices\<close> is the empty list, \<^verbatim>\<open>[0]\<close> raises \<^verbatim>\<open>IndexError\<close>; for a body that is a
  list, \<^verbatim>\<open>get\<close> raises \<^verbatim>\<open>AttributeError\<close>. Nothing catches either, and nothing is written
  to standard output.
\<close>

theorem uncaught_on_unexpected_shape:
  "stdout (main (spark (replying (JObject [(str ''choices'', JArray [])])))
             (invocation (Some (str ''hi''))) []) = [] \<and>
   status (main (spark (replying (JObject [(str ''choices'', JArray [])])))
             (invocation (Some (str ''hi''))) []) = Uncaught IndexError \<and>
   stdout (main (spark (replying (JArray []))) (invocation (Some (str ''hi''))) []) = [] \<and>
   status (main (spark (replying (JArray []))) (invocation (Some (str ''hi''))) []) =
     Uncaught AttributeError"
  by (simp add: main_def read_prompt_def invocation_def spark_def replying_def Let_def
      extract_response_def and_then_def dict_get_def str_def)


lemma is_dict_get:
  "is_dict v \<Longrightarrow> py_get v k dflt = Inr (or_default (at_path [Key k] v) dflt)"
  by (cases v) (simp_all add: dict_get_def or_default_def split: option.split)




text \<open>
  Conversely, lines 85 to 102 raise on every body that is not of that shape, and then
  nothing is written.
\<close>

lemma py_get_Inr: "py_get v k dflt = Inr w \<Longrightarrow> is_dict v"
  by (cases v) simp_all

lemma and_then_Inr_iff:
  "and_then r f = Inr w \<longleftrightarrow> (\<exists>v. r = Inr v \<and> f v = Inr w)"
  by (cases r) (simp_all add: and_then_def)

lemma item0_Inr: "item0 v = Inr w \<Longrightarrow> (\<exists>xs. v = JArray (w # xs)) \<or> (\<exists>c cs. v = JString (c # cs) \<and> w = JString [c])"
  by (cases v) (auto split: list.splits)

lemma extract_response_returns:
  assumes "extract_response body sid = Inr out"
  shows "chat_response body"
proof -
  from assms obtain choices choice msg usage scram_j where
    1: "py_get body (str ''choices'') (JArray [JObject []]) = Inr choices" and
    2: "item0 choices = Inr choice" and
    3: "py_get choice (str ''message'') (JObject []) = Inr msg" and
    4: "is_dict msg" and
    5: "py_get body (str ''usage'') (JObject []) = Inr usage" and
    6: "py_get body (str ''scram_j'') (JObject []) = Inr scram_j" and
    7: "is_dict scram_j" and
    8: "is_dict usage"
    unfolding extract_response_def and_then_Inr_iff by (blast dest: py_get_Inr)
  from 1 obtain d where d: "body = JObject d"
    by (cases body) simp_all
  from 3 have "is_dict choice"
    by (rule py_get_Inr)
  with 2 obtain c cs where c: "choices = JArray (JObject c # cs)" and "choice = JObject c"
    by (cases choice) (auto dest!: item0_Inr)
  with 3 4 have m: "absent_or_dict (str ''message'') c"
    by (auto simp: absent_or_dict_def dict_get_def split: option.splits)
  from 1 d c m have "case map_of d (str ''choices'') of None \<Rightarrow> True | Some v \<Rightarrow> first_is_choice v"
    by (auto simp: dict_get_def split: option.splits)
  moreover from 5 8 d have "absent_or_dict (str ''usage'') d"
    by (auto simp: absent_or_dict_def dict_get_def split: option.splits)
  moreover from 6 7 d have "absent_or_dict (str ''scram_j'') d"
    by (auto simp: absent_or_dict_def dict_get_def split: option.splits)
  ultimately show ?thesis
    using d by simp
qed

lemma main_unexpected_shape:
  assumes "\<not> chat_response body" and "read_prompt a stdin \<noteq> []"
    and "urlopen e (request_for e a (read_prompt a stdin)) = Returned body"
  shows "\<exists>x. main e a stdin =
    \<lparr>stdout = [], sent = [request_for e a (read_prompt a stdin)], status = Uncaught x\<rparr>"
proof (cases "extract_response body (session_id a)")
  case (Inl x)
  with assms(2,3) show ?thesis
    by (simp add: main_def Let_def)
next
  case (Inr out)
  with assms(1) show ?thesis
    by (blast dest: extract_response_returns)
qed












section \<open>Characters of the line written\<close>






text \<open>
  The two failure branches call \<^verbatim>\<open>json.dumps\<close> without \<^verbatim>\<open>ensure_ascii=False\<close> (lines 74 and
  79), unlike line 103: there a character outside ASCII is written as \<^verbatim>\<open>\uXXXX\<close>.
\<close>

lemma failure_line_escapes_non_ascii:
  \<open>stdout (main (spark refusing_fr) (invocation (Some (str ''hi''))) []) =
   str ''{"item": {"text": "SCRAM-J connection error: <urlopen error [Errno 111] Connexion refus'' @
   [92] @ str ''u00e9e>", "type": "message"}}'' @ [10]\<close>
  by (simp add: main_def read_prompt_def invocation_def spark_def refusing_fr_def Let_def
      error_event_def print_def encode_basestring_def escape_char_def ESCAPE_DCT_def
      u_escape_def hex4_def hexdigit_def str_def)



end
